theory Spec2Isabelle
  imports Complex_Main
begin

section \<open>The swap executor: data model\<close>

text \<open>
  A shallow embedding of the class \<open>SwapExecutor\<close> (automated swap execution through the
  Uniswap V3 router). Objects are records, a missing (\<open>undefined\<close>) field of the request
  is \<open>None\<close>, a thrown \<open>Error\<close> is a value of the datatype \<open>error\<close>, and every call to
  a collaborator (wallet, provider, token contract) is written to a trace, so that
  "no balance query, no simulation, no broadcast" is a statement about that trace.
\<close>

datatype error =
    NotEnabled                  \<comment> \<open>Swap executor not enabled or configured properly\<close>
  | EmergencyStopActive         \<comment> \<open>Emergency stop activated - all trading suspended\<close>
  | MissingParameters           \<comment> \<open>Missing required parameters: tokenIn, tokenOut, amountIn\<close>
  | InvalidTokenIn string       \<comment> \<open>Invalid tokenIn address\<close>
  | InvalidTokenOut string      \<comment> \<open>Invalid tokenOut address\<close>
  | SameTokenSwap               \<comment> \<open>Cannot swap token to itself\<close>
  | InvalidAmountFormat string  \<comment> \<open>Invalid amount format\<close>
  | InsufficientETHBalance
  | InsufficientTokenBalance
  | InsufficientAllowance
  | SwapWouldFail error         \<comment> \<open>Swap would fail: ... (the inner catch of the simulation)\<close>
  | RealTradingDisabled         \<comment> \<open>Real trading is disabled.\<close>
  | ReferenceError string       \<comment> \<open>... is not defined\<close>
  | TypeError string
  | LibraryError string         \<comment> \<open>an error thrown by ethers\<close>
  | RpcError string             \<comment> \<open>an error thrown by the provider, the wallet or a contract\<close>

text \<open>The request \<open>swapParams\<close>; every field may be absent.\<close>

record swap_params =
  tokenIn :: "string option"
  tokenOut :: "string option"
  amountIn :: "string option"
  slippagePercent :: "rat option"
  dryRun :: "bool option"
  reason :: "string option"

text \<open>\<open>this.config\<close>; the field \<open>emergencyStop\<close> is named \<open>emergencyStopped\<close> here, the
  name \<open>emergencyStop\<close> being the method's.\<close>

record config =
  maxSlippagePercent :: rat
  maxTransactionValueETH :: rat
  maxGasPriceGwei :: int
  gasLimitMultiplier :: rat
  transactionDeadlineMinutes :: int
  enableRealTrading :: bool
  emergencyStopped :: bool

text \<open>\<open>this.stats\<close>: the three counters. The floating-point sums \<open>totalVolumeETH\<close> and
  \<open>totalGasSpentETH\<close> and the two dates are left out; the product that the executor adds
  to \<open>totalGasSpentETH\<close> is evaluated in \<open>executeSwap_try\<close>, because it can throw.\<close>

record stats =
  totalSwapsRequested :: nat
  totalSwapsExecuted :: nat
  totalSwapsFailed :: nat

record executor =
  isEnabled :: bool
  config :: config
  stats :: stats

text \<open>The object returned by \<open>calculateSwapDetails\<close>.\<close>

record swap_details =
  tokenInAddress :: string
  tokenOutAddress :: string
  details_amountIn :: string
  estimatedOutput :: string
  minOutputAfterSlippage :: string
  details_slippagePercent :: rat
  fee :: int

text \<open>The argument of the router's \<open>exactInputSingle\<close>, and the transaction that carries
  it. The encoded call data is kept as the call it encodes.\<close>

record exact_input_single =
  call_tokenIn :: string
  call_tokenOut :: string
  call_fee :: int
  recipient :: string
  deadline :: int
  call_amountIn :: int
  amountOutMinimum :: int
  sqrtPriceLimitX96 :: int

datatype calldata = ExactInputSingle exact_input_single

record transaction =
  tx_to :: string
  tx_data :: calldata
  tx_value :: int

text \<open>The receipt that \<open>wait\<close> resolves to. The executor reads \<open>blockNumber\<close>,
  \<open>gasUsed\<close> and \<open>effectiveGasPrice\<close>; a receipt of ethers v6 carries the price paid in
  its field \<open>gasPrice\<close> and has no field \<open>effectiveGasPrice\<close>, which then reads as
  \<open>undefined\<close>, here \<open>None\<close>.\<close>

record receipt =
  blockNumber :: int
  receipt_gasUsed :: int
  gasPrice :: int
  effectiveGasPrice :: "int option"

text \<open>The object returned by \<open>executeSwap\<close>; \<open>gasUsed\<close> is the number that the
  source returns as a decimal string.\<close>

record execution_result =
  success :: bool
  result_dryRun :: bool
  result_error :: "error option"
  transactionHash :: "string option"
  result_blockNumber :: "int option"
  gasUsed :: "int option"
  swapDetails :: "swap_details option"

subsection \<open>Collaborators\<close>

text \<open>
  The functions of the ethers library that the executor calls, as parameters:
  \<open>isAddress\<close>, \<open>parseUnits\<close> (\<open>parseEther\<close> is \<open>parseUnits\<close> with 18 decimals) and the
  router interface's \<open>encodeFunctionData\<close>. \<open>floatMinOutput a s\<close> stands for the
  double-precision computation \<open>(parseFloat(a) * (1 - s / 100)).toString()\<close>, which is
  not modelled.
\<close>

record ethers =
  isAddress :: "string \<Rightarrow> bool"
  parseUnits :: "string \<Rightarrow> nat \<Rightarrow> error + int"
  encodeFunctionData :: "exact_input_single \<Rightarrow> error + calldata"
  floatMinOutput :: "string \<Rightarrow> rat \<Rightarrow> string"

text \<open>
  The answers of the wallet, the provider and the token contracts during one call of
  \<open>executeSwap\<close>; \<open>Inl\<close> is a rejected promise. \<open>getFeeData\<close> answers the \<open>gasPrice\<close>
  field, which may be \<open>null\<close>; \<open>wait\<close> answers the receipt, which may be \<open>null\<close>;
  \<open>now\<close> is \<open>Date.now()\<close> in milliseconds.
\<close>

record chain =
  getAddress :: "error + string"
  getBalance :: "string \<Rightarrow> error + int"
  balanceOf :: "string \<Rightarrow> string \<Rightarrow> error + int"
  decimals :: "string \<Rightarrow> error + nat"
  allowance :: "string \<Rightarrow> string \<Rightarrow> string \<Rightarrow> error + int"
  estimateGas :: "transaction \<Rightarrow> error + int"
  getFeeData :: "error + int option"
  sendTransaction :: "transaction \<Rightarrow> error + string"
  wait :: "string \<Rightarrow> error + receipt option"
  now :: int

text \<open>One entry of the trace per call to a collaborator.\<close>

datatype rpc =
    GetAddress
  | GetBalance string
  | BalanceOf string string
  | Decimals string
  | Allowance string string string
  | EstimateGas transaction
  | GetFeeData
  | SendTransaction transaction
  | Wait string

subsection \<open>Constants\<close>

definition UNISWAP_V3_ROUTER_ADDRESS :: string where
  "UNISWAP_V3_ROUTER_ADDRESS = ''0xE592427A0AEce92De3Edee1F18E0157C05861564''"

definition WETH :: string where
  "WETH = ''0xC02aaA39b223FE8D0A0e5C4F27eAD9083C756Cc2''"

definition SHIB :: string where
  "SHIB = ''0x95aD61b0a150d79219dCF64E1E6Cc01f0B64C4cE''"

section \<open>Sequencing: state, trace and exceptions\<close>

text \<open>
  A computation reads and updates the statistics, appends to the trace and either
  throws or returns. \<open>await\<close> sequences two computations: a throw skips the rest.
\<close>

type_synonym 'a io = "stats \<Rightarrow> stats \<times> rpc list \<times> (error + 'a)"

definition lift :: "error + 'a \<Rightarrow> 'a io" where
  "lift r = (\<lambda>s. (s, [], r))"

definition ret :: "'a \<Rightarrow> 'a io" where
  "ret x = lift (Inr x)"

definition throw :: "error \<Rightarrow> 'a io" where
  "throw e = lift (Inl e)"

definition call :: "rpc \<Rightarrow> error + 'a \<Rightarrow> 'a io" where
  "call c r = (\<lambda>s. (s, [c], r))"

definition modify :: "(stats \<Rightarrow> stats) \<Rightarrow> unit io" where
  "modify f = (\<lambda>s. (f s, [], Inr ()))"

definition await :: "'a io \<Rightarrow> ('a \<Rightarrow> 'b io) \<Rightarrow> 'b io" where
  "await m f = (\<lambda>s. case m s of
      (s1, t1, Inl e) \<Rightarrow> (s1, t1, Inl e)
    | (s1, t1, Inr x) \<Rightarrow> (case f x s1 of (s2, t2, r) \<Rightarrow> (s2, t1 @ t2, r)))"

definition try_catch :: "'a io \<Rightarrow> (error \<Rightarrow> 'a io) \<Rightarrow> 'a io" where
  "try_catch m h = (\<lambda>s. case m s of
      (s1, t1, Inl e) \<Rightarrow> (case h e s1 of (s2, t2, r) \<Rightarrow> (s2, t1 @ t2, r))
    | (s1, t1, Inr x) \<Rightarrow> (s1, t1, Inr x))"

section \<open>The executor\<close>

subsection \<open>Construction and the emergency stop\<close>

text \<open>
  The constructor: the configuration comes from the environment, the emergency stop is
  off, the counters are zero, and on each of its three paths \<open>isEnabled\<close> is false.
  \<open>initializeProvider\<close> enables the executor when the wallet's address and balance can
  be read (a wallet that cannot be built from the private key is an address that cannot
  be read), and disables it otherwise.
\<close>

definition SwapExecutor :: "config \<Rightarrow> executor" where
  "SwapExecutor env =
     \<lparr>isEnabled = False,
      config = env\<lparr>emergencyStopped := False\<rparr>,
      stats = \<lparr>totalSwapsRequested = 0, totalSwapsExecuted = 0, totalSwapsFailed = 0\<rparr>\<rparr>"

definition initializeProvider :: "chain \<Rightarrow> executor \<Rightarrow> executor" where
  "initializeProvider C ex =
     (case getAddress C of
        Inl e \<Rightarrow> ex\<lparr>isEnabled := False\<rparr>
      | Inr address \<Rightarrow>
          (case getBalance C address of
             Inl e \<Rightarrow> ex\<lparr>isEnabled := False\<rparr>
           | Inr balance \<Rightarrow> ex\<lparr>isEnabled := True\<rparr>))"

definition emergencyStop :: "executor \<Rightarrow> executor" where
  "emergencyStop ex = ex\<lparr>config := (config ex)\<lparr>emergencyStopped := True\<rparr>\<rparr>"

definition resumeTrading :: "executor \<Rightarrow> executor" where
  "resumeTrading ex = ex\<lparr>config := (config ex)\<lparr>emergencyStopped := False\<rparr>\<rparr>"

subsection \<open>validateSwapParameters\<close>

text \<open>
  \<open>!x\<close> holds of an absent field and of the empty string. A failure of \<open>parseUnits\<close>
  and the error thrown for \<open>amount <= 0\<close> are both caught by the function's own
  \<open>catch\<close>, which throws "Invalid amount format".
\<close>

definition falsy :: "string option \<Rightarrow> bool" where
  "falsy x = (case x of None \<Rightarrow> True | Some s \<Rightarrow> s = [])"

definition str :: "string option \<Rightarrow> string" where
  "str x = (case x of None \<Rightarrow> [] | Some s \<Rightarrow> s)"

definition validateSwapParameters :: "ethers \<Rightarrow> swap_params \<Rightarrow> error + unit" where
  "validateSwapParameters L params =
     (if falsy (tokenIn params) \<or> falsy (tokenOut params) \<or> falsy (amountIn params)
        then Inl MissingParameters
      else if str (tokenIn params) \<noteq> ''ETH'' \<and> \<not> isAddress L (str (tokenIn params))
        then Inl (InvalidTokenIn (str (tokenIn params)))
      else if str (tokenOut params) \<noteq> ''ETH'' \<and> \<not> isAddress L (str (tokenOut params))
        then Inl (InvalidTokenOut (str (tokenOut params)))
      else if tokenIn params = tokenOut params
        then Inl SameTokenSwap
      else (case parseUnits L (str (amountIn params)) 18 of
              Inl e \<Rightarrow> Inl (InvalidAmountFormat (str (amountIn params)))
            | Inr amount \<Rightarrow>
                if amount \<le> 0 then Inl (InvalidAmountFormat (str (amountIn params)))
                else Inr ()))"

subsection \<open>verifyBalanceAndAllowance\<close>

definition verifyBalanceAndAllowance :: "ethers \<Rightarrow> chain \<Rightarrow> string \<Rightarrow> string \<Rightarrow> unit io" where
  "verifyBalanceAndAllowance L C tokenAddress amount =
     await (call GetAddress (getAddress C)) (\<lambda>walletAddress.
       if tokenAddress = ''ETH'' then
         await (call (GetBalance walletAddress) (getBalance C walletAddress)) (\<lambda>ethBalance.
         await (lift (parseUnits L amount 18)) (\<lambda>requiredAmount.
           if ethBalance < requiredAmount then throw InsufficientETHBalance else ret ()))
       else
         await (call (BalanceOf tokenAddress walletAddress)
                     (balanceOf C tokenAddress walletAddress)) (\<lambda>tokenBalance.
         await (call (Decimals tokenAddress) (decimals C tokenAddress)) (\<lambda>tokenDecimals.
         await (lift (parseUnits L amount tokenDecimals)) (\<lambda>requiredAmount.
           if tokenBalance < requiredAmount then throw InsufficientTokenBalance
           else
             await (call (Allowance tokenAddress walletAddress UNISWAP_V3_ROUTER_ADDRESS)
                         (allowance C tokenAddress walletAddress UNISWAP_V3_ROUTER_ADDRESS))
                   (\<lambda>currentAllowance.
               if currentAllowance < requiredAmount then throw InsufficientAllowance
               else ret ())))))"

subsection \<open>calculateSwapDetails\<close>

definition calculateSwapDetails :: "ethers \<Rightarrow> string \<Rightarrow> string \<Rightarrow> string \<Rightarrow> rat \<Rightarrow> swap_details" where
  "calculateSwapDetails L tokenIn' tokenOut' amountIn' slippagePercent' =
     \<lparr>tokenInAddress = (if tokenIn' = ''ETH'' then WETH else tokenIn'),
      tokenOutAddress = (if tokenOut' = ''ETH'' then WETH else tokenOut'),
      details_amountIn = amountIn',
      estimatedOutput = amountIn',
      minOutputAfterSlippage = floatMinOutput L amountIn' slippagePercent',
      details_slippagePercent = slippagePercent',
      fee = 3000\<rparr>"

subsection \<open>buildSwapTransaction\<close>

definition buildSwapTransaction :: "ethers \<Rightarrow> chain \<Rightarrow> executor \<Rightarrow> swap_details \<Rightarrow> transaction io" where
  "buildSwapTransaction L C ex sd =
     await (call GetAddress (getAddress C)) (\<lambda>recipientAddress.
     await (lift (parseUnits L (details_amountIn sd) 18)) (\<lambda>amountIn'.
     await (lift (parseUnits L (minOutputAfterSlippage sd) 18)) (\<lambda>amountOutMinimum'.
     await (lift (encodeFunctionData L
              \<lparr>call_tokenIn = tokenInAddress sd,
               call_tokenOut = tokenOutAddress sd,
               call_fee = fee sd,
               recipient = recipientAddress,
               deadline = now C div 1000 + transactionDeadlineMinutes (config ex) * 60,
               call_amountIn = amountIn',
               amountOutMinimum = amountOutMinimum',
               sqrtPriceLimitX96 = 0\<rparr>)) (\<lambda>data.
     await (lift (if tokenInAddress sd = WETH then parseUnits L (details_amountIn sd) 18
                  else Inr 0)) (\<lambda>value'.
       ret \<lparr>tx_to = UNISWAP_V3_ROUTER_ADDRESS, tx_data = data, tx_value = value'\<rparr>)))))"

subsection \<open>executeSwap\<close>

text \<open>
  The simulation is the inner \<open>try\<close> block: the gas estimate, then the fee data;
  \<open>simulationResult * gasPrice.gasPrice\<close> throws a TypeError when the gas price is
  \<open>null\<close>. Every error of the block is rethrown as "Swap would fail". The constants
  \<open>simulationResult\<close> and \<open>estimatedCostETH\<close> are declared with \<open>const\<close> inside that
  block, so the block hands nothing on to the code after it.
\<close>

definition simulation :: "chain \<Rightarrow> transaction \<Rightarrow> unit io" where
  "simulation C transaction' =
     try_catch
       (await (call (EstimateGas transaction') (estimateGas C transaction')) (\<lambda>simulationResult.
        await (call GetFeeData (getFeeData C)) (\<lambda>gasPrice.
          case gasPrice of
            None \<Rightarrow> throw (TypeError ''Cannot mix BigInt and other types'')
          | Some p \<Rightarrow> ret ())))
       (\<lambda>simulationError. throw (SwapWouldFail simulationError))"

text \<open>
  The body of the outer \<open>try\<close>. The dry-run \<open>return\<close> builds its object from
  \<open>simulationResult?.toString()\<close> and \<open>estimatedCostETH\<close>, names whose declarations
  are in the inner block and out of scope here: evaluating the first throws
  "ReferenceError: simulationResult is not defined", inside the outer \<open>try\<close>.

  After the confirmation the executor logs \<open>receipt.blockNumber\<close> (a TypeError on a
  \<open>null\<close> receipt), increments \<open>totalSwapsExecuted\<close>, and then evaluates
  \<open>receipt.gasUsed * receipt.effectiveGasPrice\<close> for the gas statistics: the product of a
  BigInt and \<open>undefined\<close> throws a TypeError, still inside the outer \<open>try\<close> and after
  the execution has been counted.
\<close>

definition executeSwap_try :: "ethers \<Rightarrow> chain \<Rightarrow> executor \<Rightarrow> swap_params \<Rightarrow> execution_result io" where
  "executeSwap_try L C ex swapParams =
     (if \<not> isEnabled ex then throw NotEnabled
      else if emergencyStopped (config ex) then throw EmergencyStopActive
      else
        await (lift (validateSwapParameters L swapParams)) (\<lambda>_.
        await (modify (\<lambda>s. s\<lparr>totalSwapsRequested := totalSwapsRequested s + 1\<rparr>)) (\<lambda>_.
        await (verifyBalanceAndAllowance L C (str (tokenIn swapParams))
                 (str (amountIn swapParams))) (\<lambda>_.
        await (ret (calculateSwapDetails L (str (tokenIn swapParams))
                 (str (tokenOut swapParams)) (str (amountIn swapParams))
                 (case slippagePercent swapParams of
                    None \<Rightarrow> maxSlippagePercent (config ex) | Some x \<Rightarrow> x))) (\<lambda>swapDetails'.
        await (buildSwapTransaction L C ex swapDetails') (\<lambda>transaction'.
        await (simulation C transaction') (\<lambda>_.
          if (case dryRun swapParams of None \<Rightarrow> True | Some b \<Rightarrow> b) then
            throw (ReferenceError ''simulationResult'')
          else if \<not> enableRealTrading (config ex) then throw RealTradingDisabled
          else
            await (call (SendTransaction transaction') (sendTransaction C transaction'))
                  (\<lambda>txHash.
            await (call (Wait txHash) (wait C txHash)) (\<lambda>receipt'.
              case receipt' of
                None \<Rightarrow> throw (TypeError ''Cannot read properties of null'')
              | Some rc \<Rightarrow>
                  await (modify (\<lambda>s. s\<lparr>totalSwapsExecuted := totalSwapsExecuted s + 1\<rparr>))
                        (\<lambda>_.
                  await (lift (case effectiveGasPrice rc of
                                 None \<Rightarrow> Inl (TypeError ''Cannot mix BigInt and other types'')
                               | Some price \<Rightarrow> Inr (receipt_gasUsed rc * price)))
                        (\<lambda>gasCostWei.
                    ret \<lparr>success = True,
                         result_dryRun = False,
                         result_error = None,
                         transactionHash = Some txHash,
                         result_blockNumber = Some (blockNumber rc),
                         gasUsed = Some (receipt_gasUsed rc),
                         swapDetails = Some swapDetails'\<rparr>)))))))))))"

text \<open>
  \<open>executeSwap\<close>: the outer \<open>catch\<close> counts a failure and returns the failure object,
  whose \<open>dryRun\<close> is \<open>swapParams.dryRun || true\<close>. The result is the executor after the
  call, the trace of the call, and the returned object.
\<close>

definition truthy :: "bool option \<Rightarrow> bool" where
  "truthy x = (case x of None \<Rightarrow> False | Some b \<Rightarrow> b)"

definition executeSwap ::
  "ethers \<Rightarrow> chain \<Rightarrow> executor \<Rightarrow> swap_params \<Rightarrow> executor \<times> rpc list \<times> execution_result" where
  "executeSwap L C ex swapParams =
     (case executeSwap_try L C ex swapParams (stats ex) of
        (s, t, Inr r) \<Rightarrow> (ex\<lparr>stats := s\<rparr>, t, r)
      | (s, t, Inl e) \<Rightarrow>
          (ex\<lparr>stats := s\<lparr>totalSwapsFailed := totalSwapsFailed s + 1\<rparr>\<rparr>, t,
           \<lparr>success = False,
            result_dryRun = (if truthy (dryRun swapParams) then True else True),
            result_error = Some e,
            transactionHash = None,
            result_blockNumber = None,
            gasUsed = None,
            swapDetails = None\<rparr>))"

subsection \<open>Sequences of calls\<close>

datatype operation =
    InitializeProvider chain
  | ExecuteSwap chain swap_params
  | EmergencyStop
  | ResumeTrading

definition executor_after :: "executor \<times> rpc list \<times> execution_result \<Rightarrow> executor" where
  "executor_after x = fst x"

definition trace_of :: "executor \<times> rpc list \<times> execution_result \<Rightarrow> rpc list" where
  "trace_of x = fst (snd x)"

definition result_of :: "executor \<times> rpc list \<times> execution_result \<Rightarrow> execution_result" where
  "result_of x = snd (snd x)"

fun step :: "ethers \<Rightarrow> executor \<Rightarrow> operation \<Rightarrow> executor" where
  "step L ex (InitializeProvider C) = initializeProvider C ex"
| "step L ex (ExecuteSwap C swapParams) = executor_after (executeSwap L C ex swapParams)"
| "step L ex EmergencyStop = emergencyStop ex"
| "step L ex ResumeTrading = resumeTrading ex"

definition run :: "ethers \<Rightarrow> executor \<Rightarrow> operation list \<Rightarrow> executor" where
  "run L ex ops = foldl (step L) ex ops"

section \<open>A concrete environment\<close>

text \<open>
  Stand-ins for the library and the chain, for evaluating the executor on concrete
  requests. \<open>test_isAddress\<close> accepts \<open>0x\<close> followed by 40 hexadecimal digits;
  \<open>test_parseUnits\<close> reads a decimal string (an optional sign, digits, an optional
  point, digits) as a fixed-point number and refuses a string with no digit or with more
  significant decimals than asked for; \<open>test_encodeFunctionData\<close> refuses a negative
  \<open>uint256\<close>. \<open>test_floatMinOutput\<close> tabulates the double-precision results for the
  requests used below: \<open>0.01 * (1 - 1 / 100)\<close> prints as \<open>0.0099\<close>,
  \<open>1 * (1 - (-100) / 100)\<close> as \<open>2\<close>, \<open>5 * (1 - 0 / 100)\<close> as \<open>5\<close>,
  \<open>1 * (1 - 0.5 / 100)\<close> as \<open>0.995\<close> and \<open>1 * (1 - 18 / 100)\<close> as
  \<open>0.8200000000000001\<close>.
\<close>

definition hexdigit :: "char \<Rightarrow> bool" where
  "hexdigit c = (c \<in> set ''0123456789abcdefABCDEF'')"

definition test_isAddress :: "string \<Rightarrow> bool" where
  "test_isAddress a = (length a = 42 \<and> take 2 a = ''0x'' \<and> list_all hexdigit (drop 2 a))"

definition digit :: "char \<Rightarrow> int option" where
  "digit c = map_of [(CHR ''0'', 0), (CHR ''1'', 1), (CHR ''2'', 2), (CHR ''3'', 3),
     (CHR ''4'', 4), (CHR ''5'', 5), (CHR ''6'', 6), (CHR ''7'', 7), (CHR ''8'', 8),
     (CHR ''9'', 9)] c"

fun digits_value :: "string \<Rightarrow> int \<Rightarrow> int option" where
  "digits_value [] acc = Some acc"
| "digits_value (c # cs) acc =
     (case digit c of None \<Rightarrow> None | Some d \<Rightarrow> digits_value cs (10 * acc + d))"

definition test_parseUnits :: "string \<Rightarrow> nat \<Rightarrow> error + int" where
  "test_parseUnits v n =
     (let negative = (take 1 v = ''-'');
          body = (if negative then drop 1 v else v);
          whole = takeWhile (\<lambda>c. c \<noteq> CHR ''.'') body;
          decimal = drop 1 (dropWhile (\<lambda>c. c \<noteq> CHR ''.'') body)
      in if whole = [] \<and> decimal = [] then Inl (LibraryError ''invalid FixedNumber string value'')
         else if \<not> list_all (\<lambda>c. c = CHR ''0'') (drop n decimal)
           then (case digits_value (whole @ decimal) 0 of
                   None \<Rightarrow> Inl (LibraryError ''invalid FixedNumber string value'')
                 | Some _ \<Rightarrow> Inl (LibraryError ''too many decimals for format''))
         else (case digits_value (whole @ take n (decimal @ replicate n (CHR ''0''))) 0 of
                 None \<Rightarrow> Inl (LibraryError ''invalid FixedNumber string value'')
               | Some k \<Rightarrow> Inr (if negative then - k else k)))"

definition test_encodeFunctionData :: "exact_input_single \<Rightarrow> error + calldata" where
  "test_encodeFunctionData p =
     (if call_fee p < 0 \<or> deadline p < 0 \<or> call_amountIn p < 0 \<or> amountOutMinimum p < 0
        then Inl (LibraryError ''value out-of-bounds'')
      else Inr (ExactInputSingle p))"

definition test_floatMinOutput :: "string \<Rightarrow> rat \<Rightarrow> string" where
  "test_floatMinOutput a s =
     (case map_of [((''0.01'', 1), ''0.0099''), ((''1'', - 100), ''2''),
                   ((''5'', 0), ''5''), ((''1'', 1 / 2), ''0.995''),
                   ((''1'', 18), ''0.8200000000000001'')] (a, s) of
        None \<Rightarrow> ''NaN''
      | Some m \<Rightarrow> m)"

definition test_ethers :: ethers where
  "test_ethers =
     \<lparr>isAddress = test_isAddress,
      parseUnits = test_parseUnits,
      encodeFunctionData = test_encodeFunctionData,
      floatMinOutput = test_floatMinOutput\<rparr>"

text \<open>A wallet with 10 ETH, ample token balances and allowances, on a chain where every
  call succeeds; the receipt is one of ethers v6. \<open>legacy_receipt_chain\<close> is the same
  chain answering with a receipt that does carry \<open>effectiveGasPrice\<close>, as a hand-made
  provider can.\<close>

definition wallet_address :: string where
  "wallet_address = ''0x1111111111111111111111111111111111111111''"

definition funded_chain :: chain where
  "funded_chain =
     \<lparr>getAddress = Inr wallet_address,
      getBalance = (\<lambda>a. Inr 10000000000000000000),
      balanceOf = (\<lambda>token owner. Inr 1000000000000000000000000),
      decimals = (\<lambda>token. Inr 18),
      allowance = (\<lambda>token owner spender. Inr 1000000000000000000000000),
      estimateGas = (\<lambda>t. Inr 150000),
      getFeeData = Inr (Some 20000000000),
      sendTransaction = (\<lambda>t. Inr ''0xabc''),
      wait = (\<lambda>h. Inr (Some \<lparr>blockNumber = 19000000, receipt_gasUsed = 120000,
                               gasPrice = 20000000000, effectiveGasPrice = None\<rparr>)),
      now = 1700000000000\<rparr>"

definition legacy_receipt_chain :: chain where
  "legacy_receipt_chain =
     funded_chain\<lparr>wait := (\<lambda>h. Inr (Some \<lparr>blockNumber = 19000000, receipt_gasUsed = 120000,
        gasPrice = 20000000000, effectiveGasPrice = Some 20000000000\<rparr>))\<rparr>"

text \<open>The default configuration of the constructor, and an executor that has been
  initialised, without and with real trading.\<close>

definition default_config :: config where
  "default_config =
     \<lparr>maxSlippagePercent = 1 / 2,
      maxTransactionValueETH = 1 / 10,
      maxGasPriceGwei = 100,
      gasLimitMultiplier = 6 / 5,
      transactionDeadlineMinutes = 10,
      enableRealTrading = False,
      emergencyStopped = False\<rparr>"

definition ready_executor :: executor where
  "ready_executor = initializeProvider funded_chain (SwapExecutor default_config)"

definition trading_executor :: executor where
  "trading_executor =
     initializeProvider funded_chain (SwapExecutor (default_config\<lparr>enableRealTrading := True\<rparr>))"

text \<open>Requests: the dry run of 0.01 ETH into SHIB at 1% slippage; real swaps of ETH
  into SHIB with a slippage of -100% and with an amount of 5 ETH; a swap of WETH into
  SHIB; the request of the repository's emergency-stop test; a dry run at 18% slippage;
  a swap of ETH into WETH.\<close>

definition dry_run_request :: swap_params where
  "dry_run_request =
     \<lparr>tokenIn = Some ''ETH'', tokenOut = Some SHIB, amountIn = Some ''0.01'',
      slippagePercent = Some 1, dryRun = Some True, reason = Some ''Test simulation''\<rparr>"

definition negative_slippage_request :: swap_params where
  "negative_slippage_request =
     \<lparr>tokenIn = Some ''ETH'', tokenOut = Some SHIB, amountIn = Some ''1'',
      slippagePercent = Some (- 100), dryRun = Some False, reason = None\<rparr>"

definition large_request :: swap_params where
  "large_request =
     \<lparr>tokenIn = Some ''ETH'', tokenOut = Some SHIB, amountIn = Some ''5'',
      slippagePercent = Some 0, dryRun = Some False, reason = None\<rparr>"

definition weth_in_request :: swap_params where
  "weth_in_request =
     \<lparr>tokenIn = Some WETH, tokenOut = Some SHIB, amountIn = Some ''1'',
      slippagePercent = None, dryRun = Some False, reason = None\<rparr>"

definition stop_test_request :: swap_params where
  "stop_test_request =
     \<lparr>tokenIn = Some ''ETH'', tokenOut = Some SHIB, amountIn = Some ''0.01'',
      slippagePercent = None, dryRun = Some True, reason = None\<rparr>"

definition slippage_18_request :: swap_params where
  "slippage_18_request =
     \<lparr>tokenIn = Some ''ETH'', tokenOut = Some SHIB, amountIn = Some ''1'',
      slippagePercent = Some 18, dryRun = Some True, reason = None\<rparr>"

definition eth_to_weth_request :: swap_params where
  "eth_to_weth_request =
     \<lparr>tokenIn = Some ''ETH'', tokenOut = Some WETH, amountIn = Some ''1'',
      slippagePercent = None, dryRun = Some False, reason = None\<rparr>"

section \<open>Double-precision arithmetic\<close>

text \<open>
  The numbers of the source are IEEE-754 doubles. For values in the normal range,
  \<open>binary64 x\<close> is \<open>x\<close> rounded to the nearest number with a significand of 53 bits,
  ties to the even significand: \<open>scale53\<close> scales the magnitude into the interval from
  \<open>2^52\<close> to \<open>2^53\<close>, where the doubles are the integers. Each arithmetic operation
  of the source is the exact operation followed by this rounding, so
  \<open>double_minOutput a s\<close> is the double that \<open>parseFloat(a) * (1 - s / 100)\<close> evaluates
  to, for the decimal value \<open>a\<close> of the amount and the double \<open>s\<close>. The executor above
  takes the computation and its printing as the parameter \<open>floatMinOutput\<close>; this model
  accounts for the entry of the table at a slippage of 18%.
\<close>

definition round_half_even :: "rat \<Rightarrow> int" where
  "round_half_even y =
     (let f = \<lfloor>y\<rfloor>; r = y - of_int f
      in if r < 1 / 2 then f else if 1 / 2 < r then f + 1 else if even f then f else f + 1)"

fun scale53 :: "nat \<Rightarrow> rat \<Rightarrow> int \<Rightarrow> rat \<times> int" where
  "scale53 0 y e = (y, e)"
| "scale53 (Suc n) y e =
     (if 9007199254740992 \<le> y then scale53 n (y / 2) (e + 1)
      else if y < 4503599627370496 then scale53 n (y * 2) (e - 1)
      else (y, e))"

definition binary64 :: "rat \<Rightarrow> rat" where
  "binary64 x =
     (if x = 0 then 0
      else case scale53 2200 \<bar>x\<bar> 0 of
             (y, e) \<Rightarrow> sgn x * of_int (round_half_even y) * power_int 2 e)"

definition double_minOutput :: "rat \<Rightarrow> rat \<Rightarrow> rat" where
  "double_minOutput a s = binary64 (binary64 a * binary64 (1 - binary64 (s / 100)))"

section \<open>Properties\<close>


text \<open>
  \<open>after_simulation\<close> names the last part of the body of \<open>executeSwap\<close>, from the
  dry-run decision to the return (lemma \<open>executeSwap_try_stages\<close>).
\<close>

definition after_simulation ::
  "chain \<Rightarrow> executor \<Rightarrow> swap_params \<Rightarrow> swap_details \<Rightarrow> transaction \<Rightarrow> execution_result io" where
  "after_simulation C ex swapParams swapDetails' transaction' =
         (if (case dryRun swapParams of None \<Rightarrow> True | Some b \<Rightarrow> b) then
            throw (ReferenceError ''simulationResult'')
          else if \<not> enableRealTrading (config ex) then throw RealTradingDisabled
          else
            await (call (SendTransaction transaction') (sendTransaction C transaction'))
                  (\<lambda>txHash.
            await (call (Wait txHash) (wait C txHash)) (\<lambda>receipt'.
              case receipt' of
                None \<Rightarrow> throw (TypeError ''Cannot read properties of null'')
              | Some rc \<Rightarrow>
                  await (modify (\<lambda>s. s\<lparr>totalSwapsExecuted := totalSwapsExecuted s + 1\<rparr>))
                        (\<lambda>_.
                  await (lift (case effectiveGasPrice rc of
                                 None \<Rightarrow> Inl (TypeError ''Cannot mix BigInt and other types'')
                               | Some price \<Rightarrow> Inr (receipt_gasUsed rc * price)))
                        (\<lambda>gasCostWei.
                    ret \<lparr>success = True,
                         result_dryRun = False,
                         result_error = None,
                         transactionHash = Some txHash,
                         result_blockNumber = Some (blockNumber rc),
                         gasUsed = Some (receipt_gasUsed rc),
                         swapDetails = Some swapDetails'\<rparr>)))))"


text \<open>
  \<open>oblivious m\<close>: the trace and the outcome of the computation \<open>m\<close> do not depend on
  the counters it starts from.
\<close>

definition oblivious :: "'a io \<Rightarrow> bool" where
  "oblivious m = (\<forall>s s0. snd (m s) = snd (m s0))"

subsection \<open>Evaluation\<close>

lemma replicate_numeral: "replicate (numeral k) x = x # replicate (pred_numeral k) x"
  by (simp add: numeral_eq_Suc)

lemmas executor_defs =
  executeSwap_def executeSwap_try_def verifyBalanceAndAllowance_def calculateSwapDetails_def
  buildSwapTransaction_def simulation_def validateSwapParameters_def falsy_def str_def
  truthy_def await_def try_catch_def lift_def ret_def throw_def call_def modify_def
  executor_after_def trace_of_def result_of_def run_def
  SwapExecutor_def initializeProvider_def emergencyStop_def resumeTrading_def
  UNISWAP_V3_ROUTER_ADDRESS_def WETH_def SHIB_def

lemmas test_defs =
  replicate_numeral
  test_ethers_def test_isAddress_def hexdigit_def test_parseUnits_def digit_def
  test_encodeFunctionData_def test_floatMinOutput_def funded_chain_def wallet_address_def
  default_config_def ready_executor_def trading_executor_def
  dry_run_request_def negative_slippage_request_def large_request_def weth_in_request_def
  eth_to_weth_request_def legacy_receipt_chain_def stop_test_request_def
  slippage_18_request_def

subsection \<open>Rounding to a double\<close>

lemma scale53_up:
  "4503599627370496 \<le> y * 2 ^ j \<Longrightarrow> y * 2 ^ j < 9007199254740992 \<Longrightarrow> j \<le> n
   \<Longrightarrow> scale53 n y e = (y * 2 ^ j, e - int j)"
proof (induction j arbitrary: n y e)
  case 0
  then show ?case by (cases n) simp_all
next
  case (Suc j)
  from Suc.prems(3) obtain m where n: "n = Suc m" and jm: "j \<le> m"
    by (cases n) simp_all
  have pos: "0 < y"
  proof (rule ccontr)
    assume "\<not> 0 < y"
    then have "y * 2 ^ Suc j \<le> 0" by (simp add: mult_le_0_iff)
    with Suc.prems(1) show False by simp
  qed
  have "y * 2 \<le> y * 2 ^ Suc j"
    using pos by simp
  with Suc.prems(2) have small: "y < 4503599627370496" by simp
  have step: "scale53 m (y * 2) (e - 1) = (y * 2 * 2 ^ j, e - 1 - int j)"
    using Suc.IH [of "y * 2" m "e - 1"] Suc.prems jm by (simp add: mult.assoc)
  from small n step show ?case by (simp add: mult.assoc)
qed

lemma binary64_scaled:
  assumes "4503599627370496 \<le> x * 2 ^ j" and "x * 2 ^ j < 9007199254740992" and "j \<le> 2200"
  shows "binary64 x = of_int (round_half_even (x * 2 ^ j)) / 2 ^ j"
proof -
  have pos: "0 < x"
  proof (rule ccontr)
    assume "\<not> 0 < x"
    then have "x * 2 ^ j \<le> 0" by (simp add: mult_le_0_iff)
    with assms(1) show False by simp
  qed
  then have "scale53 2200 \<bar>x\<bar> 0 = (x * 2 ^ j, - int j)"
    using scale53_up [of x j 2200 0] assms by simp
  with pos show ?thesis
    by (simp add: binary64_def power_int_minus field_simps)
qed

lemma round_half_even_near:
  assumes "\<bar>y - of_int m\<bar> < 1 / 2"
  shows "round_half_even y = m"
proof -
  let ?f = "\<lfloor>y\<rfloor>"
  have f: "of_int ?f \<le> y" "y < of_int ?f + 1" by linarith+
  from assms have m: "of_int m - 1 / 2 < y" "y < of_int m + 1 / 2" by linarith+
  have "?f = m \<or> ?f = m - 1"
  proof -
    from f(2) m(1) have "of_int m - 1 / 2 < (of_int ?f + 1 :: rat)" by linarith
    then have "rat_of_int m < of_int ?f + 2" by linarith
    then have a: "m < ?f + 2" by (metis of_int_less_iff of_int_add of_int_numeral)
    from f(1) m(2) have "rat_of_int ?f < of_int m + 1" by linarith
    then have b: "?f < m + 1" by (metis of_int_less_iff of_int_add of_int_1)
    from a b show ?thesis by linarith
  qed
  then show ?thesis
  proof
    assume eq: "?f = m"
    with m(2) have "y - of_int ?f < 1 / 2" by simp
    with eq show ?thesis by (simp add: round_half_even_def Let_def)
  next
    assume eq: "?f = m - 1"
    with m(1) have "1 / 2 < y - of_int ?f" by simp
    with eq show ?thesis by (simp add: round_half_even_def Let_def)
  qed
qed

lemma binary64_eq:
  assumes "4503599627370496 \<le> x * 2 ^ j" and "x * 2 ^ j < 9007199254740992" and "j \<le> 2200"
    and "\<bar>x * 2 ^ j - of_int m\<bar> < 1 / 2"
  shows "binary64 x = of_int m / 2 ^ j"
  using binary64_scaled [OF assms(1-3)] round_half_even_near [OF assms(4)] by simp

lemma round_half_even_tie:
  assumes "y = of_int m - 1 / 2" and "even m"
  shows "round_half_even y = m"
proof -
  have "\<lfloor>y\<rfloor> = m - 1"
    using assms(1) by (intro floor_unique) simp_all
  moreover have "y - of_int (m - 1) = 1 / 2"
    using assms(1) by simp
  ultimately show ?thesis
    using assms(2) by (simp add: round_half_even_def Let_def)
qed

lemma binary64_tie:
  assumes "4503599627370496 \<le> x * 2 ^ j" and "x * 2 ^ j < 9007199254740992" and "j \<le> 2200"
    and "x * 2 ^ j = of_int m - 1 / 2" and "even m"
  shows "binary64 x = of_int m / 2 ^ j"
  using binary64_scaled [OF assms(1-3)] round_half_even_tie [OF assms(4,5)] by simp

text \<open>
  The double computed for an amount of 1 and a slippage of 18%: \<open>18 / 100\<close> rounds up,
  the difference from 1 is a tie that rounds to the even significand, and the result
  lies above the exact 0.82. The decimal \<open>0.8200000000000001\<close> denotes this double, and
  \<open>0.82\<close> denotes another one.
\<close>

lemma slippage_18_double:
  "double_minOutput 1 18 = 3692951694443807 / 4503599627370496
   \<and> (1::rat) * (1 - 18 / 100) < double_minOutput 1 18
   \<and> binary64 (8200000000000001 / 10000000000000000) = double_minOutput 1 18
   \<and> binary64 (82 / 100) \<noteq> double_minOutput 1 18"
proof -
  have d18: "binary64 (18 / 100) = 3242591731706757 / 18014398509481984"
    using binary64_eq [where x = "18 / 100" and j = 55 and m = 6485183463413514] by simp
  have one: "binary64 1 = 1"
    using binary64_eq [where x = 1 and j = 52 and m = 4503599627370496] by simp
  have sub: "binary64 (1 - 3242591731706757 / 18014398509481984)
      = 3692951694443807 / 4503599627370496"
    using binary64_tie [where x = "1 - 3242591731706757 / 18014398509481984" and j = 53
        and m = 7385903388887614] by simp
  have prod: "binary64 (1 * (3692951694443807 / 4503599627370496))
      = 3692951694443807 / 4503599627370496"
    using binary64_eq [where x = "3692951694443807 / 4503599627370496" and j = 53
        and m = 7385903388887614] by simp
  have dec: "binary64 (8200000000000001 / 10000000000000000)
      = 3692951694443807 / 4503599627370496"
    using binary64_eq [where x = "8200000000000001 / 10000000000000000" and j = 53
        and m = 7385903388887614] by simp
  have dec2: "binary64 (82 / 100) = 7385903388887613 / 9007199254740992"
    using binary64_eq [where x = "82 / 100" and j = 53 and m = 7385903388887613] by simp
  have result: "double_minOutput 1 18 = 3692951694443807 / 4503599627370496"
    unfolding double_minOutput_def by (simp only: d18 one sub prod)
  show ?thesis
    unfolding result dec dec2 by simp
qed

subsection \<open>Sequencing\<close>

lemma lift_eq: "lift r s = (s', t, r') \<longleftrightarrow> s' = s \<and> t = [] \<and> r' = r"
  by (auto simp: lift_def)

lemma call_eq: "call c r s = (s', t, r') \<longleftrightarrow> s' = s \<and> t = [c] \<and> r' = r"
  by (auto simp: call_def)

lemma modify_eq: "modify f s = (s', t, r) \<longleftrightarrow> s' = f s \<and> t = [] \<and> r = Inr ()"
  by (auto simp: modify_def)

lemma awaitE:
  assumes "await m f s = (s', t, r)"
  obtains (thrown) e where "m s = (s', t, Inl e)" and "r = Inl e"
  | (continued) s1 t1 x t2 where "m s = (s1, t1, Inr x)" and "f x s1 = (s', t2, r)"
      and "t = t1 @ t2"
  using assms by (auto simp: await_def split: prod.splits sum.splits)

lemma try_catchE:
  assumes "try_catch m h s = (s', t, r)"
  obtains (caught) s1 t1 e t2 where "m s = (s1, t1, Inl e)" and "h e s1 = (s', t2, r)"
      and "t = t1 @ t2"
  | (returned) x where "m s = (s', t, Inr x)" and "r = Inr x"
  using assms by (auto simp: try_catch_def split: prod.splits sum.splits)

subsection \<open>The stages\<close>

text \<open>The three stages that talk to the chain leave the counters alone and never
  broadcast; the balance verification starts by asking the wallet for its address.\<close>

lemma verify_effect:
  assumes "verifyBalanceAndAllowance L C a b s = (s', t, r)"
  shows "s' = s \<and> (\<exists>t'. t = GetAddress # t') \<and> (\<forall>tx. SendTransaction tx \<notin> set t)"
  using assms unfolding verifyBalanceAndAllowance_def
  by (auto elim!: awaitE simp: call_eq lift_eq ret_def throw_def split: if_splits)

lemma build_effect:
  assumes "buildSwapTransaction L C ex sd s = (s', t, r)"
  shows "s' = s \<and> (\<forall>tx. SendTransaction tx \<notin> set t)"
  using assms unfolding buildSwapTransaction_def
  by (auto elim!: awaitE simp: call_eq lift_eq ret_def throw_def split: if_splits)

lemma simulation_effect:
  assumes "simulation C tx' s = (s', t, r)"
  shows "s' = s \<and> (\<forall>tx. SendTransaction tx \<notin> set t)"
  using assms unfolding simulation_def
  by (auto elim!: awaitE try_catchE simp: call_eq lift_eq ret_def throw_def
      split: if_splits option.splits)

subsection \<open>The body of executeSwap\<close>

text \<open>The last part of the body: what it does to the counters and to the trace.\<close>

lemma executeSwap_try_stages:
  "executeSwap_try L C ex swapParams =
     (if \<not> isEnabled ex then throw NotEnabled
      else if emergencyStopped (config ex) then throw EmergencyStopActive
      else
        await (lift (validateSwapParameters L swapParams)) (\<lambda>_.
        await (modify (\<lambda>s. s\<lparr>totalSwapsRequested := totalSwapsRequested s + 1\<rparr>)) (\<lambda>_.
        await (verifyBalanceAndAllowance L C (str (tokenIn swapParams))
                 (str (amountIn swapParams))) (\<lambda>_.
        await (ret (calculateSwapDetails L (str (tokenIn swapParams))
                 (str (tokenOut swapParams)) (str (amountIn swapParams))
                 (case slippagePercent swapParams of
                    None \<Rightarrow> maxSlippagePercent (config ex) | Some x \<Rightarrow> x))) (\<lambda>swapDetails'.
        await (buildSwapTransaction L C ex swapDetails') (\<lambda>transaction'.
        await (simulation C transaction') (\<lambda>_.
          after_simulation C ex swapParams swapDetails' transaction')))))))"
  unfolding executeSwap_try_def after_simulation_def ..

lemma after_simulation_throws:
  assumes "after_simulation C ex p sd tx s = (s', t, Inl e)"
  shows "(s' = s \<and> (dryRun p \<noteq> Some False \<longrightarrow> t = []))
     \<or> (s' = s\<lparr>totalSwapsExecuted := totalSwapsExecuted s + 1\<rparr>
        \<and> SendTransaction tx \<in> set t)"
  using assms unfolding after_simulation_def
  by (auto elim!: awaitE simp: call_eq lift_eq modify_eq ret_def throw_def
       split: if_splits option.splits)

lemma after_simulation_returns:
  assumes "after_simulation C ex p sd tx s = (s', t, Inr r)"
  shows "success r \<and> \<not> result_dryRun r \<and> dryRun p = Some False
     \<and> s' = s\<lparr>totalSwapsExecuted := totalSwapsExecuted s + 1\<rparr>"
  using assms unfolding after_simulation_def
  by (auto elim!: awaitE simp: call_eq lift_eq modify_eq ret_def throw_def
       split: if_splits option.splits)

lemma after_simulation_dry:
  assumes "after_simulation C ex p sd tx s = (s', t, r)" and "dryRun p \<noteq> Some False"
  shows "t = []"
  using assms unfolding after_simulation_def
  by (auto simp: lift_eq throw_def split: if_splits option.splits)

text \<open>A call that does not get past the three checks of stage 1 throws at once.\<close>

lemma executeSwap_try_rejected:
  assumes "\<not> (isEnabled ex \<and> \<not> emergencyStopped (config ex)
               \<and> validateSwapParameters L p = Inr ())"
  shows "\<exists>e. executeSwap_try L C ex p s = (s, [], Inl e) \<and>
     e = (if \<not> isEnabled ex then NotEnabled
          else if emergencyStopped (config ex) then EmergencyStopActive
          else (case validateSwapParameters L p of Inl e' \<Rightarrow> e'))"
  using assms unfolding executeSwap_try_def
  by (cases "validateSwapParameters L p") (auto simp: await_def lift_def throw_def)

text \<open>A call that gets past them is counted and reaches the balance verification.\<close>

lemma executeSwap_try_head:
  assumes "isEnabled ex" and "\<not> emergencyStopped (config ex)"
    and "validateSwapParameters L p = Inr ()"
    and "executeSwap_try L C ex p s = (s', t, r)"
  shows "\<exists>t'. t = GetAddress # t'"
  using assms unfolding executeSwap_try_def
  by (auto elim!: awaitE simp: call_eq lift_eq modify_eq ret_def throw_def
       dest!: verify_effect)

lemma executeSwap_try_throws:
  assumes "isEnabled ex" and "\<not> emergencyStopped (config ex)"
    and "validateSwapParameters L p = Inr ()"
    and "executeSwap_try L C ex p s = (s', t, Inl e)"
  shows "s' = s\<lparr>totalSwapsRequested := totalSwapsRequested s + 1\<rparr>
     \<or> (s' = s\<lparr>totalSwapsRequested := totalSwapsRequested s + 1,
                 totalSwapsExecuted := totalSwapsExecuted s + 1\<rparr>
        \<and> (\<exists>tx. SendTransaction tx \<in> set t))"
  using assms unfolding executeSwap_try_stages
  by (auto elim!: awaitE simp: call_eq lift_eq modify_eq ret_def
       dest!: verify_effect build_effect simulation_effect after_simulation_throws)

text \<open>The body returns only from the real execution.\<close>

lemma executeSwap_try_returns:
  assumes "executeSwap_try L C ex p s = (s', t, Inr r)"
  shows "success r \<and> \<not> result_dryRun r \<and> dryRun p = Some False
     \<and> isEnabled ex \<and> \<not> emergencyStopped (config ex)
     \<and> validateSwapParameters L p = Inr ()
     \<and> s' = s\<lparr>totalSwapsRequested := totalSwapsRequested s + 1,
              totalSwapsExecuted := totalSwapsExecuted s + 1\<rparr>"
  using assms unfolding executeSwap_try_stages
  by (auto elim!: awaitE simp: call_eq lift_eq modify_eq ret_def throw_def
       dest!: verify_effect build_effect simulation_effect after_simulation_returns
       split: if_splits)

lemma executeSwap_try_dry:
  assumes "executeSwap_try L C ex p s = (s', t, r)" and "dryRun p \<noteq> Some False"
  shows "\<forall>tx. SendTransaction tx \<notin> set t"
  using assms unfolding executeSwap_try_stages
  by (auto elim!: awaitE simp: call_eq lift_eq modify_eq ret_def throw_def
       dest!: verify_effect build_effect simulation_effect after_simulation_dry
       split: if_splits)

subsection \<open>Independence of the counters\<close>

lemma oblivious_lift: "oblivious (lift r)"
  by (simp add: oblivious_def lift_def)

lemma oblivious_ret: "oblivious (ret x)"
  by (simp add: ret_def oblivious_lift)

lemma oblivious_throw: "oblivious (throw e)"
  by (simp add: throw_def oblivious_lift)

lemma oblivious_call: "oblivious (call c r)"
  by (simp add: oblivious_def call_def)

lemma oblivious_modify: "oblivious (modify f)"
  by (simp add: oblivious_def modify_def)

lemma oblivious_await:
  assumes "oblivious m" and "\<And>x. oblivious (f x)"
  shows "oblivious (await m f)"
  unfolding oblivious_def
proof (intro allI)
  fix s s0
  obtain s1 t1 r1 where a: "m s = (s1, t1, r1)" by (cases "m s") auto
  obtain s2 t2 r2 where b: "m s0 = (s2, t2, r2)" by (cases "m s0") auto
  from assms(1) have "snd (m s) = snd (m s0)" unfolding oblivious_def by blast
  with a b have eq: "t2 = t1" "r2 = r1" by simp_all
  show "snd (await m f s) = snd (await m f s0)"
  proof (cases r1)
    case (Inl e)
    with a b eq show ?thesis by (simp add: await_def)
  next
    case (Inr x)
    from assms(2) [of x] have "snd (f x s1) = snd (f x s2)" unfolding oblivious_def by blast
    with Inr a b eq show ?thesis by (auto simp: await_def split: prod.splits)
  qed
qed

lemma oblivious_try_catch:
  assumes "oblivious m" and "\<And>e. oblivious (h e)"
  shows "oblivious (try_catch m h)"
  unfolding oblivious_def
proof (intro allI)
  fix s s0
  obtain s1 t1 r1 where a: "m s = (s1, t1, r1)" by (cases "m s") auto
  obtain s2 t2 r2 where b: "m s0 = (s2, t2, r2)" by (cases "m s0") auto
  from assms(1) have "snd (m s) = snd (m s0)" unfolding oblivious_def by blast
  with a b have eq: "t2 = t1" "r2 = r1" by simp_all
  show "snd (try_catch m h s) = snd (try_catch m h s0)"
  proof (cases r1)
    case (Inr x)
    with a b eq show ?thesis by (simp add: try_catch_def)
  next
    case (Inl e)
    from assms(2) [of e] have "snd (h e s1) = snd (h e s2)" unfolding oblivious_def by blast
    with Inl a b eq show ?thesis by (auto simp: try_catch_def split: prod.splits)
  qed
qed

lemma oblivious_if:
  "(b \<Longrightarrow> oblivious m) \<Longrightarrow> (\<not> b \<Longrightarrow> oblivious n) \<Longrightarrow> oblivious (if b then m else n)"
  by simp

lemma oblivious_case_option:
  "(x = None \<Longrightarrow> oblivious m) \<Longrightarrow> (\<And>y. x = Some y \<Longrightarrow> oblivious (n y))
   \<Longrightarrow> oblivious (case x of None \<Rightarrow> m | Some y \<Rightarrow> n y)"
  by (cases x) simp_all

lemma oblivious_executeSwap_try: "oblivious (executeSwap_try L C ex p)"
  unfolding executeSwap_try_def verifyBalanceAndAllowance_def buildSwapTransaction_def
    simulation_def
  by (intro oblivious_await oblivious_try_catch oblivious_lift oblivious_ret oblivious_throw
      oblivious_call oblivious_modify oblivious_if oblivious_case_option)

text \<open>The body reads the executor only through \<open>isEnabled\<close> and \<open>config\<close>, and
  neither is changed by a call.\<close>

lemma executeSwap_try_config:
  assumes "isEnabled ex' = isEnabled ex" and "config ex' = config ex"
  shows "executeSwap_try L C ex' p = executeSwap_try L C ex p"
  unfolding executeSwap_try_def buildSwapTransaction_def assms ..

lemma executeSwap_outcome:
  assumes "isEnabled ex' = isEnabled ex" and "config ex' = config ex"
  shows "trace_of (executeSwap L C ex' p) = trace_of (executeSwap L C ex p)
       \<and> result_of (executeSwap L C ex' p) = result_of (executeSwap L C ex p)"
proof -
  have "snd (executeSwap_try L C ex p (stats ex')) = snd (executeSwap_try L C ex p (stats ex))"
    using oblivious_executeSwap_try unfolding oblivious_def by blast
  then have "snd (executeSwap_try L C ex' p (stats ex')) = snd (executeSwap_try L C ex p (stats ex))"
    using executeSwap_try_config [OF assms] by simp
  then show ?thesis
    unfolding executeSwap_def trace_of_def result_of_def
    by (cases "executeSwap_try L C ex' p (stats ex')"; cases "executeSwap_try L C ex p (stats ex)")
       (auto split: sum.splits)
qed

lemma executeSwap_frame:
  "isEnabled (executor_after (executeSwap L C ex p)) = isEnabled ex
   \<and> config (executor_after (executeSwap L C ex p)) = config ex"
  unfolding executeSwap_def executor_after_def
  by (cases "executeSwap_try L C ex p (stats ex)") (auto split: sum.splits)


lemma executeSwap_stats_success:
  assumes "success (result_of (executeSwap L C ex p))"
  shows "stats (executor_after (executeSwap L C ex p)) =
           (stats ex)\<lparr>totalSwapsRequested := totalSwapsRequested (stats ex) + 1,
                      totalSwapsExecuted := totalSwapsExecuted (stats ex) + 1\<rparr>"
proof -
  obtain s t r where body: "executeSwap_try L C ex p (stats ex) = (s, t, r)"
    by (cases "executeSwap_try L C ex p (stats ex)") auto
  show ?thesis
  proof (cases r)
    case (Inl e)
    with body assms show ?thesis by (simp add: executeSwap_def result_of_def)
  next
    case (Inr x)
    with body executeSwap_try_returns [of L C ex p "stats ex" s t x]
    show ?thesis by (simp add: executeSwap_def executor_after_def)
  qed
qed

lemma executeSwap_stats_failure:
  assumes "isEnabled ex" and "\<not> emergencyStopped (config ex)"
    and "validateSwapParameters L p = Inr ()"
    and "\<not> success (result_of (executeSwap L C ex p))"
  shows "stats (executor_after (executeSwap L C ex p)) =
           (stats ex)\<lparr>totalSwapsRequested := totalSwapsRequested (stats ex) + 1,
                      totalSwapsFailed := totalSwapsFailed (stats ex) + 1\<rparr>
     \<or> (stats (executor_after (executeSwap L C ex p)) =
           (stats ex)\<lparr>totalSwapsRequested := totalSwapsRequested (stats ex) + 1,
                      totalSwapsExecuted := totalSwapsExecuted (stats ex) + 1,
                      totalSwapsFailed := totalSwapsFailed (stats ex) + 1\<rparr>
        \<and> (\<exists>tx. SendTransaction tx \<in> set (trace_of (executeSwap L C ex p))))"
proof -
  obtain s t r where body: "executeSwap_try L C ex p (stats ex) = (s, t, r)"
    by (cases "executeSwap_try L C ex p (stats ex)") auto
  show ?thesis
  proof (cases r)
    case (Inl e)
    with body executeSwap_try_throws [OF assms(1-3), of C "stats ex" s t e]
    show ?thesis by (auto simp: executeSwap_def executor_after_def trace_of_def)
  next
    case (Inr x)
    with body executeSwap_try_returns [of L C ex p "stats ex" s t x] assms(4)
    show ?thesis by (simp add: executeSwap_def result_of_def)
  qed
qed

lemma executeSwap_requested:
  assumes "isEnabled ex" and "\<not> emergencyStopped (config ex)"
    and "validateSwapParameters L p = Inr ()"
  shows "totalSwapsRequested (stats (executor_after (executeSwap L C ex p)))
           = totalSwapsRequested (stats ex) + 1"
proof (cases "success (result_of (executeSwap L C ex p))")
  case True
  from executeSwap_stats_success [OF True] show ?thesis by simp
next
  case False
  from executeSwap_stats_failure [OF assms False] show ?thesis by auto
qed

lemma executeSwap_rejected:
  assumes "\<not> (isEnabled ex \<and> \<not> emergencyStopped (config ex)
               \<and> validateSwapParameters L p = Inr ())"
  shows "trace_of (executeSwap L C ex p) = []
     \<and> \<not> success (result_of (executeSwap L C ex p))
     \<and> result_error (result_of (executeSwap L C ex p)) =
         Some (if \<not> isEnabled ex then NotEnabled
          else if emergencyStopped (config ex) then EmergencyStopActive
          else (case validateSwapParameters L p of Inl e' \<Rightarrow> e'))"
proof -
  from executeSwap_try_rejected [OF assms, of C "stats ex"]
  obtain e where "executeSwap_try L C ex p (stats ex) = (stats ex, [], Inl e)"
    and "e = (if \<not> isEnabled ex then NotEnabled
          else if emergencyStopped (config ex) then EmergencyStopActive
          else (case validateSwapParameters L p of Inl e' \<Rightarrow> e'))" by blast
  then show ?thesis by (simp add: executeSwap_def trace_of_def result_of_def)
qed

lemma executeSwap_accepted:
  assumes "isEnabled ex" and "\<not> emergencyStopped (config ex)"
    and "validateSwapParameters L p = Inr ()"
  shows "\<exists>t'. trace_of (executeSwap L C ex p) = GetAddress # t'"
proof -
  obtain s t r where body: "executeSwap_try L C ex p (stats ex) = (s, t, r)"
    by (cases "executeSwap_try L C ex p (stats ex)") auto
  from executeSwap_try_head [OF assms body] obtain t' where "t = GetAddress # t'" by blast
  with body show ?thesis by (cases r) (simp_all add: executeSwap_def trace_of_def)
qed

section \<open>The claims\<close>

subsection \<open>Dry runs and failures\<close>

text \<open>
  C5: a request with \<open>dryRun = true\<close> (and likewise a request that leaves \<open>dryRun\<close> out,
  for which the default \<open>true\<close> is taken) never makes \<open>executeSwap\<close> call
  \<open>sendTransaction\<close>, whatever the executor, the library and the chain do: no
  \<open>SendTransaction\<close> is in the trace of the call, whether validation, verification and
  simulation succeed or fail.
\<close>

theorem dry_run_never_broadcasts:
  "dryRun swapParams \<noteq> Some False
   \<Longrightarrow> SendTransaction tx \<notin> set (trace_of (executeSwap L C ex swapParams))"
proof -
  assume dry: "dryRun swapParams \<noteq> Some False"
  obtain s t r where body: "executeSwap_try L C ex swapParams (stats ex) = (s, t, r)"
    by (cases "executeSwap_try L C ex swapParams (stats ex)") auto
  from executeSwap_try_dry [OF body dry] have "SendTransaction tx \<notin> set t" by blast
  with body show ?thesis
    by (cases r) (simp_all add: executeSwap_def trace_of_def)
qed

theorem dry_run_never_broadcasts_witness:
  "dryRun dry_run_request \<noteq> Some False
   \<and> (\<forall>tx. SendTransaction tx \<notin>
         set (trace_of (executeSwap test_ethers funded_chain trading_executor dry_run_request)))"
proof -
  have dry: "dryRun dry_run_request \<noteq> Some False"
    by (simp add: dry_run_request_def)
  show ?thesis
    using dry dry_run_never_broadcasts [OF dry] by blast
qed

text \<open>
  C10: whenever \<open>executeSwap\<close> returns a failure (\<open>success = false\<close>), the \<open>dryRun\<close>
  field of the returned object is \<open>true\<close>, also for a request submitted with
  \<open>dryRun = false\<close>: the catch block computes it as \<open>swapParams.dryRun || true\<close>.
\<close>

theorem executeSwap_failure_dryRun:
  "\<not> success (result_of (executeSwap L C ex swapParams))
   \<Longrightarrow> result_dryRun (result_of (executeSwap L C ex swapParams))"
proof -
  assume failed: "\<not> success (result_of (executeSwap L C ex swapParams))"
  obtain s t r where body: "executeSwap_try L C ex swapParams (stats ex) = (s, t, r)"
    by (cases "executeSwap_try L C ex swapParams (stats ex)") auto
  show ?thesis
  proof (cases r)
    case (Inl e)
    with body show ?thesis by (simp add: executeSwap_def result_of_def)
  next
    case (Inr x)
    with body have "success x" using executeSwap_try_returns by blast
    with body Inr failed show ?thesis by (simp add: executeSwap_def result_of_def)
  qed
qed

theorem executeSwap_failure_dryRun_witness:
  "dryRun large_request = Some False
   \<and> \<not> success (result_of (executeSwap test_ethers funded_chain ready_executor large_request))
   \<and> result_dryRun (result_of (executeSwap test_ethers funded_chain ready_executor large_request))"
proof -
  have failed:
    "\<not> success (result_of (executeSwap test_ethers funded_chain ready_executor large_request))"
    by (simp add: executor_defs test_defs)
  show ?thesis
    using failed executeSwap_failure_dryRun [OF failed] by (simp add: large_request_def)
qed

subsection \<open>The counters\<close>









subsection \<open>Where the code departs from its documentation\<close>

text \<open>The body of \<open>executeSwap\<close> never returns from a dry run: it throws, and the call
  reports a failure.\<close>

lemma dry_run_always_fails:
  "dryRun swapParams \<noteq> Some False \<Longrightarrow> \<not> success (result_of (executeSwap L C ex swapParams))"
proof
  assume dry: "dryRun swapParams \<noteq> Some False"
    and ok: "success (result_of (executeSwap L C ex swapParams))"
  obtain s t r where body: "executeSwap_try L C ex swapParams (stats ex) = (s, t, r)"
    by (cases "executeSwap_try L C ex swapParams (stats ex)") auto
  show False
  proof (cases r)
    case (Inl e)
    with body ok show False by (simp add: executeSwap_def result_of_def)
  next
    case (Inr x)
    with body executeSwap_try_returns [of L C ex swapParams "stats ex" s t x] dry
    show False by simp
  qed
qed

text \<open>When a transaction is built, its value is the parsed amount if the normalised
  input address is that of WETH, and zero otherwise.\<close>

lemma buildSwapTransaction_value:
  assumes "buildSwapTransaction L C ex sd s = (s', t, Inr tx)"
  shows "if tokenInAddress sd = WETH
         then parseUnits L (details_amountIn sd) 18 = Inr (tx_value tx)
         else tx_value tx = 0"
  using assms unfolding buildSwapTransaction_def
  by (auto elim!: awaitE simp: call_eq lift_eq ret_def split: if_splits)

text \<open>While the emergency stop is set a call is rejected without calling a collaborator,
  and the stop stays set; after \<open>resumeTrading\<close> a request gives the calls and the result
  it gives without the stop.\<close>

lemma emergency_stop_blocks:
  "emergencyStopped (config (emergencyStop ex))
   \<and> trace_of (executeSwap L C (emergencyStop ex) p) = []
   \<and> \<not> success (result_of (executeSwap L C (emergencyStop ex) p))
   \<and> result_error (result_of (executeSwap L C (emergencyStop ex) p)) =
       Some (if isEnabled ex then EmergencyStopActive else NotEnabled)
   \<and> emergencyStopped (config (executor_after (executeSwap L C (emergencyStop ex) p)))"
proof -
  have stopped: "emergencyStopped (config (emergencyStop ex))"
    by (simp add: emergencyStop_def)
  then have rejected: "\<not> (isEnabled (emergencyStop ex)
      \<and> \<not> emergencyStopped (config (emergencyStop ex))
      \<and> validateSwapParameters L p = Inr ())"
    by simp
  have "isEnabled (emergencyStop ex) = isEnabled ex"
    by (simp add: emergencyStop_def)
  with executeSwap_rejected [OF rejected, of C] stopped
    executeSwap_frame [of L C "emergencyStop ex" p]
  show ?thesis by auto
qed

lemma resume_after_stop:
  assumes "\<not> emergencyStopped (config ex)"
  shows "trace_of (executeSwap L C' (run L ex [EmergencyStop, ExecuteSwap C p, ResumeTrading]) p')
           = trace_of (executeSwap L C' ex p')
       \<and> result_of (executeSwap L C' (run L ex [EmergencyStop, ExecuteSwap C p, ResumeTrading]) p')
           = result_of (executeSwap L C' ex p')"
proof -
  let ?after = "run L ex [EmergencyStop, ExecuteSwap C p, ResumeTrading]"
  have frame: "isEnabled (executor_after (executeSwap L C (emergencyStop ex) p)) = isEnabled ex"
    "config (executor_after (executeSwap L C (emergencyStop ex) p)) = config (emergencyStop ex)"
    using executeSwap_frame [of L C "emergencyStop ex" p] by (simp_all add: emergencyStop_def)
  have "config (resumeTrading (emergencyStop ex)) = config ex"
    using assms by (simp add: resumeTrading_def emergencyStop_def)
  with frame have same: "isEnabled ?after = isEnabled ex" "config ?after = config ex"
    by (simp_all add: run_def resumeTrading_def emergencyStop_def)
  from executeSwap_outcome [OF same] show ?thesis .
qed

text \<open>With the receipt of ethers v6 a confirmed swap is counted as executed and then as
  failed, and the call reports a failure; with a receipt that carries
  \<open>effectiveGasPrice\<close> it is counted once and the call reports success.\<close>

lemma confirmed_swap_counts_failure:
  "result_error (result_of (executeSwap test_ethers funded_chain trading_executor
      large_request)) = Some (TypeError ''Cannot mix BigInt and other types'')
   \<and> stats (executor_after (executeSwap test_ethers funded_chain trading_executor
      large_request)) =
      \<lparr>totalSwapsRequested = 1, totalSwapsExecuted = 1, totalSwapsFailed = 1\<rparr>"
  by (simp add: executor_defs test_defs)

lemma legacy_receipt_swap_succeeds:
  "success (result_of (executeSwap test_ethers legacy_receipt_chain trading_executor
      large_request))
   \<and> stats (executor_after (executeSwap test_ethers legacy_receipt_chain trading_executor
      large_request)) =
      \<lparr>totalSwapsRequested = 1, totalSwapsExecuted = 1, totalSwapsFailed = 0\<rparr>"
  by (simp add: executor_defs test_defs)

text \<open>
  C2 says that a dry run that passes validation, verification and simulation returns
  \<open>success = true\<close> and \<open>dryRun = true\<close>. The code does not: for the dry run of 0.01 ETH
  into SHIB at 1% slippage, on an enabled executor with a funded wallet, the request is
  valid, the balance is read, the transaction is built and the gas estimate and the fee
  data are obtained, and then the call returns \<open>success = false\<close> with the error
  "simulationResult is not defined". Nothing is broadcast.
\<close>

theorem dry_run_scenario_fails:
  "validateSwapParameters test_ethers dry_run_request = Inr ()
   \<and> trace_of (executeSwap test_ethers funded_chain ready_executor dry_run_request) =
       [GetAddress, GetBalance wallet_address, GetAddress,
        EstimateGas
          \<lparr>tx_to = UNISWAP_V3_ROUTER_ADDRESS,
           tx_data = ExactInputSingle
             \<lparr>call_tokenIn = WETH, call_tokenOut = SHIB, call_fee = 3000,
              recipient = wallet_address, deadline = 1700000600,
              call_amountIn = 10000000000000000, amountOutMinimum = 9900000000000000,
              sqrtPriceLimitX96 = 0\<rparr>,
           tx_value = 10000000000000000\<rparr>,
        GetFeeData]
   \<and> result_of (executeSwap test_ethers funded_chain ready_executor dry_run_request) =
       \<lparr>success = False, result_dryRun = True,
        result_error = Some (ReferenceError ''simulationResult''),
        transactionHash = None, result_blockNumber = None, gasUsed = None,
        swapDetails = None\<rparr>"
  by (simp add: executor_defs test_defs)

text \<open>
  C3 says that a request whose \<open>slippagePercent\<close> is outside [0, 100] is rejected before
  any balance query. The code has no such check: a real swap of 1 ETH into SHIB with a
  slippage of -100%, on an executor with real trading enabled and a funded wallet, reads
  the balance, is simulated and is broadcast with a minimum output of twice the input.
\<close>

theorem negative_slippage_is_broadcast:
  "slippagePercent negative_slippage_request = Some (- 100)
   \<and> trace_of (executeSwap test_ethers funded_chain trading_executor
          negative_slippage_request) =
       [GetAddress, GetBalance wallet_address, GetAddress,
        EstimateGas
          \<lparr>tx_to = UNISWAP_V3_ROUTER_ADDRESS,
           tx_data = ExactInputSingle
             \<lparr>call_tokenIn = WETH, call_tokenOut = SHIB, call_fee = 3000,
              recipient = wallet_address, deadline = 1700000600,
              call_amountIn = 1000000000000000000, amountOutMinimum = 2000000000000000000,
              sqrtPriceLimitX96 = 0\<rparr>,
           tx_value = 1000000000000000000\<rparr>,
        GetFeeData,
        SendTransaction
          \<lparr>tx_to = UNISWAP_V3_ROUTER_ADDRESS,
           tx_data = ExactInputSingle
             \<lparr>call_tokenIn = WETH, call_tokenOut = SHIB, call_fee = 3000,
              recipient = wallet_address, deadline = 1700000600,
              call_amountIn = 1000000000000000000, amountOutMinimum = 2000000000000000000,
              sqrtPriceLimitX96 = 0\<rparr>,
           tx_value = 1000000000000000000\<rparr>,
        Wait ''0xabc'']"
  by (simp add: executor_defs test_defs)

text \<open>
  C4 says that a swap of the native asset whose amount exceeds
  \<open>maxTransactionValueETH\<close> is rejected before simulation or broadcast. The code never
  reads that limit: with the limit at 0.1 ETH, a real swap of 5 ETH into SHIB is
  simulated and is broadcast with a value of 5 ETH.
\<close>

theorem over_limit_swap_is_broadcast:
  "tokenIn large_request = Some ''ETH''
   \<and> amountIn large_request = Some ''5''
   \<and> maxTransactionValueETH (config trading_executor) = 1 / 10
   \<and> (\<exists>tx. EstimateGas tx
          \<in> set (trace_of (executeSwap test_ethers funded_chain trading_executor large_request))
        \<and> SendTransaction tx
          \<in> set (trace_of (executeSwap test_ethers funded_chain trading_executor large_request))
        \<and> tx_value tx = 5000000000000000000)"
  by (simp add: executor_defs test_defs)

text \<open>
  C6 says that while the emergency stop is set every call to \<open>executeSwap\<close> fails with
  the emergency-stop error. The code checks \<open>isEnabled\<close> first: on a freshly constructed
  executor, which is not enabled, after \<open>emergencyStop()\<close> the request of the repository's
  test "Emergency Stop During Execution" fails with the not-enabled error. No
  collaborator is called.
\<close>

theorem emergency_stop_reports_not_enabled:
  "\<not> isEnabled (emergencyStop (SwapExecutor default_config))
   \<and> emergencyStopped (config (emergencyStop (SwapExecutor default_config)))
   \<and> trace_of (executeSwap test_ethers funded_chain
        (emergencyStop (SwapExecutor default_config)) stop_test_request) = []
   \<and> result_of (executeSwap test_ethers funded_chain
        (emergencyStop (SwapExecutor default_config)) stop_test_request) =
       \<lparr>success = False, result_dryRun = True, result_error = Some NotEnabled,
        transactionHash = None, result_blockNumber = None, gasUsed = None,
        swapDetails = None\<rparr>"
  by (simp add: executor_defs test_defs)

text \<open>
  C7 says that \<open>minOutputAfterSlippage\<close> is the exact product
  \<open>estimatedOutput \<times> (1 - slippagePercent / 100)\<close> rounded down, so that it never exceeds
  that product. The code computes it in double precision and rounds nowhere downwards:
  for an amount of 1 and a slippage of 18% the double \<open>1 * (1 - 18 / 100)\<close> prints as
  \<open>0.8200000000000001\<close>, and the minimum output of the transaction that is built is
  820000000000000100 wei, above the exact 0.82 of the 10^18 wei of the input.
\<close>

theorem slippage_floor_exceeds_exact:
  "minOutputAfterSlippage (calculateSwapDetails test_ethers ''ETH'' SHIB ''1'' 18)
     = ''0.8200000000000001''
   \<and> parseUnits test_ethers ''0.8200000000000001'' 18 = Inr 820000000000000100
   \<and> (\<exists>tx c. EstimateGas tx
          \<in> set (trace_of (executeSwap test_ethers funded_chain ready_executor
                slippage_18_request))
        \<and> tx_data tx = ExactInputSingle c
        \<and> call_amountIn c = 1000000000000000000
        \<and> amountOutMinimum c = 820000000000000100
        \<and> rat_of_int (call_amountIn c) * (1 - 18 / 100) < rat_of_int (amountOutMinimum c))"
  by (simp add: executor_defs test_defs)

text \<open>
  C8 says that the value of the built transaction is the amount exactly when the input
  asset is the native one, and zero for every token, the WETH token included. The code
  compares the normalised input address with the WETH address: for a swap of 1 WETH (the
  token, not \<open>ETH\<close>) into SHIB the built transaction carries a value of 1 ETH, and so
  does the transaction that is broadcast.
\<close>

theorem weth_input_carries_value:
  "tokenIn weth_in_request = Some WETH
   \<and> WETH \<noteq> ''ETH''
   \<and> validateSwapParameters test_ethers weth_in_request = Inr ()
   \<and> map_sum id tx_value (snd (snd (buildSwapTransaction test_ethers funded_chain
        trading_executor (calculateSwapDetails test_ethers WETH SHIB ''1'' (1 / 2))
        (stats trading_executor)))) = Inr 1000000000000000000
   \<and> (\<exists>tx. SendTransaction tx
          \<in> set (trace_of (executeSwap test_ethers funded_chain trading_executor
                weth_in_request))
        \<and> tx_value tx = 1000000000000000000)"
  by (simp add: executor_defs test_defs)

text \<open>
  C9 says that the swap that is built after validation has two different assets, also
  for the pair \<open>ETH\<close> and the WETH address. The code compares the two assets before it
  normalises them: the request from \<open>ETH\<close> into the WETH address passes validation, and
  the transaction that is built and broadcast has the WETH address as both input and
  output token.
\<close>

theorem eth_to_weth_same_token:
  "validateSwapParameters test_ethers eth_to_weth_request = Inr ()
   \<and> (\<exists>tx c. SendTransaction tx
          \<in> set (trace_of (executeSwap test_ethers funded_chain trading_executor
                eth_to_weth_request))
        \<and> tx_data tx = ExactInputSingle c \<and> call_tokenIn c = call_tokenOut c)"
  by (simp add: executor_defs test_defs)

end
